theory Spec2Isabelle
  imports Main "HOL-Library.Word"
begin

section \<open>Data model of the client (package gapi)\<close>

text \<open>
  Byte slices and Go strings are \<open>string\<close> (lists of 8-bit characters). Error values that
  come out of library calls (\<open>json.Marshal\<close>, \<open>json.Unmarshal\<close>, \<open>http.NewRequest\<close>,
  \<open>client.Do\<close>, \<open>ioutil.ReadAll\<close>) are identified by their message.
\<close>

type_synonym bytes = string
type_synonym lib_error = string

text \<open>
  The errors a call can return. \<open>'obj\<close> is the decoded form of
  \<open>map[string]interface{}\<close>.
  \<^item> \<open>LibraryError\<close>: an error value of a library call, returned as it is;
  \<^item> \<open>DecodeError msg e\<close>: \<open>fmt.Errorf("failed to json unmarshal ... %w", ..., e)\<close>,
    the formatted message and the wrapped error;
  \<^item> \<open>APIError\<close>: the struct of that name;
  \<^item> \<open>StatusError msg\<close>: \<open>fmt.Errorf("status: %d, body: %v", ...)\<close> of the legacy path.
\<close>

datatype 'obj error =
    LibraryError lib_error
  | DecodeError string lib_error
  | APIError int 'obj
  | StatusError string

text \<open>
  What a Go call does: it panics, returns a non-nil error, or returns a value. \<open>'e\<close> is
  the kind of error the call can return.
\<close>

datatype panic = NilPointerDereference | TypeAssertionFailed

datatype ('e, 'a) outcome = Panic panic | Failed 'e | Ok 'a

text \<open>
  The dynamic type of an \<open>io.Reader\<close> value together with the bytes it yields.
  \<open>TeeReader r\<close> is \<open>io.TeeReader(r, &bodyBuffer)\<close>, the only tee the package builds.
  A nil \<open>io.Reader\<close> is \<open>None\<close> of \<open>reader option\<close>.
\<close>

datatype reader =
    BytesBuffer bytes
  | BytesReader bytes
  | TeeReader reader
  | OtherReader bytes

fun content :: "reader \<Rightarrow> bytes" where
  "content (BytesBuffer b) = b"
| "content (BytesReader b) = b"
| "content (TeeReader r) = content r"
| "content (OtherReader b) = b"

text \<open>\<open>url.URL\<close>: the fields the package reads or writes; the record is extensible.\<close>

record URL =
  Scheme :: string
  User :: "(string \<times> string) option"
  Host :: string
  Path :: string
  RawQuery :: string

type_synonym Values = "(string \<times> string list) list"

text \<open>
  \<open>http.Request\<close>. \<open>ReqURL\<close> is the URL value that \<open>newRequest\<close> builds and hands to
  \<open>http.NewRequest\<close>. \<open>Header\<close> lists the values under their canonical keys in the
  order of the \<open>Header.Add\<close> calls.
\<close>

record request =
  Method :: string
  ReqURL :: URL
  Header :: "(string \<times> string) list"
  Body :: "reader option"

text \<open>
  \<open>http.Response\<close>: the status code, and what \<open>ioutil.ReadAll(resp.Body)\<close> returns,
  the bytes read and the error (\<open>None\<close>: nil).
\<close>

record response =
  StatusCode :: int
  RespBody :: "bytes \<times> lib_error option"

text \<open>
  The pair \<open>(resp, err)\<close> of \<open>client.Do\<close>: on an error the response pointer is nil
  (\<open>None\<close>) or, when a redirect check fails, a response.
\<close>

datatype do_result = DoError lib_error "response option" | DoOK response

text \<open>
  An \<open>*http.Client\<close> is what its \<open>Do\<close> answers to the \<open>n\<close>-th attempt of a call with a
  given request: how many bytes of the request body it read, and the result.
\<close>

type_synonym http_client = "nat \<Rightarrow> request \<Rightarrow> nat \<times> do_result"

record Config =
  APIKey :: string
  BasicAuth :: "(string \<times> string) option"
  HTTPHeaders :: "(string \<times> string) list option"
  Client :: "http_client option"
  OrgID :: "64 word"
  NumRetries :: int

record Client =
  config :: Config
  baseURL :: URL
  client :: http_client

text \<open>
  The process and the libraries around the package: the value of the environment variable
  \<open>GF_LOG\<close>, \<open>textproto.CanonicalMIMEHeaderKey\<close> (applied by \<open>Header.Add\<close>), the error of
  \<open>http.NewRequest\<close> for a method and a URL (\<open>None\<close>: nil), and \<open>url.Values.Encode\<close>.
\<close>

record env =
  GF_LOG :: string
  CanonicalMIMEHeaderKey :: "string \<Rightarrow> string"
  NewRequest_error :: "string \<Rightarrow> URL \<Rightarrow> lib_error option"
  Encode :: "Values \<Rightarrow> string"

subsection \<open>Library functions with a fixed meaning\<close>

text \<open>Decimal rendering: \<open>strconv.FormatInt(i, 10)\<close> and the verb \<open>%d\<close>.\<close>

fun digits :: "nat \<Rightarrow> string" where
  "digits n = (if n < 10 then [''0123456789'' ! n]
               else digits (n div 10) @ [''0123456789'' ! (n mod 10)])"

declare digits.simps [simp del]

definition FormatInt :: "int \<Rightarrow> string" where
  "FormatInt i = (if i < 0 then CHR ''-'' # digits (nat (- i)) else digits (nat i))"

text \<open>
  \<open>path.Clean\<close> on the elements of a path: empty elements and \<open>.\<close> are dropped,
  \<open>..\<close> removes the element before it, is dropped at the root, and is kept at the
  start of a relative path. The stack holds the kept elements, last one first.
\<close>

fun split_slash :: "string \<Rightarrow> string \<Rightarrow> string list" where
  "split_slash acc [] = [rev acc]"
| "split_slash acc (c # cs) =
     (if c = CHR ''/'' then rev acc # split_slash [] cs else split_slash (c # acc) cs)"

fun clean_elems :: "bool \<Rightarrow> string list \<Rightarrow> string list \<Rightarrow> string list" where
  "clean_elems rooted stack [] = rev stack"
| "clean_elems rooted stack (e # es) =
     (if e = [] \<or> e = ''.'' then clean_elems rooted stack es
      else if e = ''..'' then
        (case stack of
           [] \<Rightarrow> if rooted then clean_elems rooted [] es else clean_elems rooted [e] es
         | t # ts \<Rightarrow> if t = ''..'' then clean_elems rooted (e # stack) es
                     else clean_elems rooted ts es)
      else clean_elems rooted (e # stack) es)"

fun join_slash :: "string list \<Rightarrow> string" where
  "join_slash [] = []"
| "join_slash [e] = e"
| "join_slash (e # es) = e @ CHR ''/'' # join_slash es"

definition Clean :: "string \<Rightarrow> string" where
  "Clean p =
     (let rooted = (p \<noteq> [] \<and> hd p = CHR ''/'');
          out = (if rooted then ''/'' else []) @ join_slash (clean_elems rooted [] (split_slash [] p))
      in if out = [] then ''.'' else out)"

text \<open>\<open>path.Join\<close> of two elements: empty elements are ignored, the result is cleaned.\<close>

definition Join :: "string \<Rightarrow> string \<Rightarrow> string" where
  "Join a b =
     (if a = [] \<and> b = [] then []
      else if a = [] then Clean b
      else Clean (a @ CHR ''/'' # b))"

section \<open>Request Builder: \<open>newRequest\<close>\<close>

definition Header_Add :: "env \<Rightarrow> request \<Rightarrow> string \<Rightarrow> string \<Rightarrow> request" where
  "Header_Add e req k v = req\<lparr>Header := Header req @ [(CanonicalMIMEHeaderKey e k, v)]\<rparr>"

text \<open>
  The logging block: output goes to the log only, but the type assertion
  \<open>body.(*bytes.Buffer)\<close> panics unless the body's dynamic type is \<open>*bytes.Buffer\<close>.
\<close>

definition log_request :: "env \<Rightarrow> reader option \<Rightarrow> panic option" where
  "log_request e body =
     (if GF_LOG e \<noteq> [] then
        (case body of
           None \<Rightarrow> None
         | Some (BytesBuffer b) \<Rightarrow> None
         | Some r \<Rightarrow> Some TypeAssertionFailed)
      else None)"

definition newRequest ::
  "env \<Rightarrow> Client \<Rightarrow> string \<Rightarrow> string \<Rightarrow> Values \<Rightarrow> reader option
     \<Rightarrow> (lib_error, request) outcome" where
  "newRequest e c method requestPath query body =
     (let url = baseURL c;
          url = url\<lparr>Path := Join (Path url) requestPath\<rparr>;
          url = url\<lparr>RawQuery := Encode e query\<rparr>
      in case NewRequest_error e method url of
           Some err \<Rightarrow> Failed err
         | None \<Rightarrow>
            (let req = \<lparr>Method = method, ReqURL = url, Header = [], Body = body\<rparr>;
                 req = (if APIKey (config c) \<noteq> []
                        then Header_Add e req ''Authorization'' (''Bearer '' @ APIKey (config c))
                        else req);
                 req = (if OrgID (config c) \<noteq> 0
                        then Header_Add e req ''X-Grafana-Org-Id'' (FormatInt (sint (OrgID (config c))))
                        else req);
                 req = (case HTTPHeaders (config c) of
                          None \<Rightarrow> req
                        | Some hs \<Rightarrow> fold (\<lambda>(k, v) r. Header_Add e r k v) hs req)
             in case log_request e body of
                  Some p \<Rightarrow> Panic p
                | None \<Rightarrow> Ok (Header_Add e req ''Content-Type'' ''application/json'')))"

section \<open>Retrying Executor and Response Decoder\<close>

text \<open>
  What a call does to the outside, in order: the fixed delay before a retry (in seconds),
  a request handed to \<open>client.Do\<close>, and what \<open>Do\<close> gave back.
\<close>

datatype event = Sleep nat | Send request | Recv do_result

text \<open>How one pass through the loop body ends, and how the loop ends.\<close>

datatype ('obj, 's) step =
    Continue 's
  | Break 's
  | ReturnErr "'obj error" 's
  | PanicStep panic 's

datatype ('obj, 's) exit =
    Done 's
  | Returned "'obj error" 's
  | Panicked panic 's

text \<open>The variables both call paths declare before the loop.\<close>

record 'obj locals =
  err :: "'obj error option"
  resp :: "response option"
  trace :: "event list"

definition final_status :: "int \<Rightarrow> bool" where
  "final_status code \<longleftrightarrow> code < 500 \<and> code \<noteq> 429"

text \<open>
  The two \<open>fmt.Errorf\<close> calls:
  \<open>"failed to json unmarshal error response '%s' for error code %d: %w"\<close> and
  \<open>"status: %d, body: %v"\<close>.
\<close>

definition Errorf_unmarshal :: "bytes \<Rightarrow> int \<Rightarrow> lib_error \<Rightarrow> 'obj error" where
  "Errorf_unmarshal b code er =
     DecodeError (''failed to json unmarshal error response '' @ [CHR 0x27] @ b @ [CHR 0x27]
                    @ '' for error code '' @ FormatInt code @ '': '' @ er) er"

definition Errorf_status :: "int \<Rightarrow> bytes \<Rightarrow> 'obj error" where
  "Errorf_status code b = StatusError (''status: '' @ FormatInt code @ '', body: '' @ b)"

subsection \<open>The generic path: \<open>Request\<close>\<close>

record 'obj Request_locals = "'obj locals" +
  responseBytes :: bytes

text \<open>
  The loop body. \<open>req, err := c.newRequest(...)\<close> declares a new \<open>err\<close> in the body's
  scope, so the assignments from \<open>Do\<close> and \<open>ReadAll\<close> go to that one and the function's
  \<open>err\<close> is never written here.
\<close>

definition Request_attempt ::
  "env \<Rightarrow> Client \<Rightarrow> string \<Rightarrow> string \<Rightarrow> Values \<Rightarrow> bytes \<Rightarrow> int \<Rightarrow> 'obj Request_locals
     \<Rightarrow> ('obj, 'obj Request_locals) step" where
  "Request_attempt e c method requestPath query requestBytes n s =
     (case newRequest e c method requestPath query (Some (BytesReader requestBytes)) of
        Panic p \<Rightarrow> PanicStep p s
      | Failed er \<Rightarrow> ReturnErr (LibraryError er) s
      | Ok req \<Rightarrow>
         (let s = (if n \<noteq> 0 then s\<lparr>trace := trace s @ [Sleep 5]\<rparr> else s);
              d = snd (client c (nat n) req);
              s = s\<lparr>trace := trace s @ [Send req, Recv d]\<rparr>
          in case d of
               DoError er r \<Rightarrow> Continue (s\<lparr>resp := r\<rparr>)
             | DoOK r \<Rightarrow>
                (let s = s\<lparr>resp := Some r, responseBytes := fst (RespBody r)\<rparr>
                 in case snd (RespBody r) of
                      Some er \<Rightarrow> Continue s
                    | None \<Rightarrow> if final_status (StatusCode r) then Break s else Continue s)))"

function Request_loop ::
  "env \<Rightarrow> Client \<Rightarrow> string \<Rightarrow> string \<Rightarrow> Values \<Rightarrow> bytes \<Rightarrow> int \<Rightarrow> 'obj Request_locals
     \<Rightarrow> ('obj, 'obj Request_locals) exit" where
  "Request_loop e c method requestPath query requestBytes n s =
     (if n \<le> NumRetries (config c) then
        (case Request_attempt e c method requestPath query requestBytes n s of
           Continue s' \<Rightarrow> Request_loop e c method requestPath query requestBytes (n + 1) s'
         | Break s' \<Rightarrow> Done s'
         | ReturnErr er s' \<Rightarrow> Returned er s'
         | PanicStep p s' \<Rightarrow> Panicked p s')
      else Done s)"
  by pat_completeness auto
termination
  by (relation "measure (\<lambda>(e, c, method, requestPath, query, requestBytes, n, s).
                  nat (NumRetries (config c) + 1 - n))") auto

declare Request_loop.simps [simp del]

definition Request_finish ::
  "(bytes \<Rightarrow> lib_error + 'obj) \<Rightarrow> (bytes \<Rightarrow> lib_error + 'res) \<Rightarrow> 'obj Request_locals
     \<Rightarrow> ('obj error, 'res) outcome" where
  "Request_finish unmarshal_map unmarshal_res s =
     (case err s of
        Some er \<Rightarrow> Failed er
      | None \<Rightarrow>
         (case resp s of
            None \<Rightarrow> Panic NilPointerDereference
          | Some r \<Rightarrow>
             if StatusCode r \<ge> 400 then
               (case unmarshal_map (responseBytes s) of
                  Inl er \<Rightarrow> Failed (Errorf_unmarshal (responseBytes s) (StatusCode r) er)
                | Inr m \<Rightarrow> Failed (APIError (StatusCode r) m))
             else
               (case unmarshal_res (responseBytes s) of
                  Inl er \<Rightarrow> Failed (LibraryError er)
                | Inr v \<Rightarrow> Ok v)))"

text \<open>
  \<open>Request[ReqT, ResT]\<close>. The type parameters come with their codecs: \<open>marshal\<close> is
  \<open>json.Marshal\<close> at \<open>ReqT\<close>, \<open>unmarshal_map\<close> is \<open>json.Unmarshal\<close> into
  \<open>map[string]interface{}\<close>, \<open>unmarshal_res\<close> is \<open>json.Unmarshal\<close> into \<open>ResT\<close>.
  The result is the outcome and the trace of the call.
\<close>

definition Request ::
  "env \<Rightarrow> Client \<Rightarrow> ('req \<Rightarrow> lib_error + bytes) \<Rightarrow> (bytes \<Rightarrow> lib_error + 'obj)
     \<Rightarrow> (bytes \<Rightarrow> lib_error + 'res) \<Rightarrow> string \<Rightarrow> string \<Rightarrow> Values \<Rightarrow> 'req option
     \<Rightarrow> ('obj error, 'res) outcome \<times> event list" where
  "Request e c marshal unmarshal_map unmarshal_res method requestPath query requestBody =
     (case (case requestBody of None \<Rightarrow> Inr [] | Some b \<Rightarrow> marshal b) of
        Inl er \<Rightarrow> (Failed (LibraryError er), [])
      | Inr requestBytes \<Rightarrow>
         (case Request_loop e c method requestPath query requestBytes 0
                 \<lparr>err = None, resp = None, trace = [], responseBytes = []\<rparr> of
            Panicked p s \<Rightarrow> (Panic p, trace s)
          | Returned er s \<Rightarrow> (Failed er, trace s)
          | Done s \<Rightarrow> (Request_finish unmarshal_map unmarshal_res s, trace s)))"

subsection \<open>The legacy path: \<open>request\<close>\<close>

record 'obj request_locals = "'obj locals" +
  bodyContents :: bytes
  body :: "reader option"
  bodyBuffer :: bytes

text \<open>
  Reading \<open>k\<close> bytes through the tee writes them to \<open>bodyBuffer\<close>; reading from any other
  reader leaves \<open>bodyBuffer\<close> alone.
\<close>

definition tee_written :: "reader option \<Rightarrow> nat \<Rightarrow> bytes \<Rightarrow> bytes" where
  "tee_written b k buf =
     (case b of Some (TeeReader r) \<Rightarrow> buf @ take k (content r) | _ \<Rightarrow> buf)"

definition request_attempt ::
  "env \<Rightarrow> Client \<Rightarrow> string \<Rightarrow> string \<Rightarrow> Values \<Rightarrow> int \<Rightarrow> 'obj request_locals
     \<Rightarrow> ('obj, 'obj request_locals) step" where
  "request_attempt e c method requestPath query n s =
     (let s = (if n > 0 then s\<lparr>body := Some (BytesReader (bodyBuffer s))\<rparr> else s)
      in case newRequest e c method requestPath query (body s) of
           Panic p \<Rightarrow> PanicStep p s
         | Failed er \<Rightarrow>
             ReturnErr (LibraryError er) (s\<lparr>err := Some (LibraryError er)\<rparr>)
         | Ok req \<Rightarrow>
            (let s = s\<lparr>err := None\<rparr>;
                 s = (if n \<noteq> 0 then s\<lparr>trace := trace s @ [Sleep 5]\<rparr> else s);
                 k = fst (client c (nat n) req);
                 d = snd (client c (nat n) req);
                 s = s\<lparr>trace := trace s @ [Send req, Recv d],
                        bodyBuffer := tee_written (body s) k (bodyBuffer s)\<rparr>
             in case d of
                  DoError er r \<Rightarrow> Continue (s\<lparr>resp := r, err := Some (LibraryError er)\<rparr>)
                | DoOK r \<Rightarrow>
                   (let s = s\<lparr>resp := Some r, bodyContents := fst (RespBody r),
                               err := map_option LibraryError (snd (RespBody r))\<rparr>
                    in case snd (RespBody r) of
                         Some er \<Rightarrow> Continue s
                       | None \<Rightarrow> if final_status (StatusCode r) then Break s else Continue s)))"

function request_loop ::
  "env \<Rightarrow> Client \<Rightarrow> string \<Rightarrow> string \<Rightarrow> Values \<Rightarrow> int \<Rightarrow> 'obj request_locals
     \<Rightarrow> ('obj, 'obj request_locals) exit" where
  "request_loop e c method requestPath query n s =
     (if n \<le> NumRetries (config c) then
        (case request_attempt e c method requestPath query n s of
           Continue s' \<Rightarrow> request_loop e c method requestPath query (n + 1) s'
         | Break s' \<Rightarrow> Done s'
         | ReturnErr er s' \<Rightarrow> Returned er s'
         | PanicStep p s' \<Rightarrow> Panicked p s')
      else Done s)"
  by pat_completeness auto
termination
  by (relation "measure (\<lambda>(e, c, method, requestPath, query, n, s).
                  nat (NumRetries (config c) + 1 - n))") auto

declare request_loop.simps [simp del]

text \<open>
  After the loop. The response is logged when \<open>GF_LOG\<close> is set, which reads
  \<open>resp.StatusCode\<close> as the status check does. \<open>responseStruct\<close> is nil (\<open>None\<close>) or a
  pointer to the caller's value, given by \<open>json.Unmarshal\<close> into it; the value it holds
  after the call is returned with the nil error.
\<close>

definition request_finish ::
  "(bytes \<Rightarrow> lib_error + 'r) option \<Rightarrow> 'obj request_locals
     \<Rightarrow> ('obj error, 'r option) outcome" where
  "request_finish responseStruct s =
     (case err s of
        Some er \<Rightarrow> Failed er
      | None \<Rightarrow>
         (case resp s of
            None \<Rightarrow> Panic NilPointerDereference
          | Some r \<Rightarrow>
             if StatusCode r \<ge> 400 then
               Failed (Errorf_status (StatusCode r) (bodyContents s))
             else
               (case responseStruct of
                  None \<Rightarrow> Ok None
                | Some unmarshal \<Rightarrow>
                   (case unmarshal (bodyContents s) of
                      Inl er \<Rightarrow> Failed (LibraryError er)
                    | Inr v \<Rightarrow> Ok (Some v)))))"

definition request ::
  "env \<Rightarrow> Client \<Rightarrow> string \<Rightarrow> string \<Rightarrow> Values \<Rightarrow> reader option
     \<Rightarrow> (bytes \<Rightarrow> lib_error + 'r) option
     \<Rightarrow> ('obj error, 'r option) outcome \<times> event list" where
  "request e c method requestPath query body0 responseStruct =
     (let body1 = (if NumRetries (config c) > 0 \<and> body0 \<noteq> None
                   then map_option TeeReader body0 else body0)
      in case request_loop e c method requestPath query 0
                \<lparr>err = None, resp = None, trace = [], bodyContents = [], body = body1,
                 bodyBuffer = []\<rparr> of
           Panicked p s \<Rightarrow> (Panic p, trace s)
         | Returned er s \<Rightarrow> (Failed er, trace s)
         | Done s \<Rightarrow> (request_finish responseStruct s, trace s))"

section \<open>Client lifecycle: \<open>WithOrgID\<close>\<close>

text \<open>
  \<open>WithOrgID\<close> has a value receiver: the method works on its own copy \<open>c\<close> of the
  client and returns the address of that copy. The store of clients is a list, an address
  is an index into it, and taking the address of the copy allocates a new cell at the end.
  The fields of reference type (the \<open>*http.Client\<close>, the header map) are copied as they
  are.
\<close>

definition WithOrgID :: "Client list \<Rightarrow> Client \<Rightarrow> 64 word \<Rightarrow> nat \<times> Client list" where
  "WithOrgID h c orgID =
     (let c = c\<lparr>config := (config c)\<lparr>OrgID := orgID\<rparr>\<rparr>
      in (length h, h @ [c]))"

section \<open>Dashboard fetch\<close>

record DashboardMeta =
  IsStarred :: bool
  Slug :: string
  Folder :: "64 word"
  URL :: string

record 'obj Dashboard =
  Meta :: DashboardMeta
  Model :: 'obj
  FolderID :: "64 word"
  FolderUID :: string
  Overwrite :: bool
  Message :: string

text \<open>
  \<open>dashboard\<close> passes \<open>&result\<close>, a pointer to the pointer \<open>result\<close>, so \<open>unmarshal\<close>
  is \<open>json.Unmarshal\<close> into \<open>**Dashboard\<close> starting from \<open>&Dashboard{}\<close>: it gives the
  value \<open>result\<close> points to afterwards, or \<open>None\<close> when it has set \<open>result\<close> to nil
  (the JSON literal \<open>null\<close>), and then \<open>result.Meta\<close> is a nil dereference.
\<close>

definition dashboard ::
  "env \<Rightarrow> Client \<Rightarrow> (bytes \<Rightarrow> lib_error + 'm Dashboard option) \<Rightarrow> string
     \<Rightarrow> ('obj error, 'm Dashboard) outcome \<times> event list" where
  "dashboard e c unmarshal path =
     (case request e c ''GET'' path [] None (Some unmarshal) of
        (Panic p, t) \<Rightarrow> (Panic p, t)
      | (Failed er, t) \<Rightarrow> (Failed er, t)
      | (Ok (Some (Some result)), t) \<Rightarrow> (Ok (result\<lparr>FolderID := Folder (Meta result)\<rparr>), t)
      | (Ok _, t) \<Rightarrow> (Panic NilPointerDereference, t))"

definition Dashboard ::
  "env \<Rightarrow> Client \<Rightarrow> (bytes \<Rightarrow> lib_error + 'm Dashboard option) \<Rightarrow> string
     \<Rightarrow> ('obj error, 'm Dashboard) outcome \<times> event list" where
  "Dashboard e c unmarshal slug = dashboard e c unmarshal (''/api/dashboards/db/'' @ slug)"

definition DashboardByUID ::
  "env \<Rightarrow> Client \<Rightarrow> (bytes \<Rightarrow> lib_error + 'm Dashboard option) \<Rightarrow> string
     \<Rightarrow> ('obj error, 'm Dashboard) outcome \<times> event list" where
  "DashboardByUID e c unmarshal uid = dashboard e c unmarshal (''/api/dashboards/uid/'' @ uid)"

section \<open>Observations on a trace\<close>

fun sends :: "event list \<Rightarrow> request list" where
  "sends [] = []"
| "sends (Send req # t) = req # sends t"
| "sends (ev # t) = sends t"

definition attempts :: "event list \<Rightarrow> nat" where
  "attempts t = length (sends t)"

definition sent_bodies :: "event list \<Rightarrow> bytes list" where
  "sent_bodies t = map (\<lambda>req. case Body req of None \<Rightarrow> [] | Some r \<Rightarrow> content r) (sends t)"

text \<open>
  The variables of a call agree with what the last \<open>Do\<close> returned. On the legacy path
  \<open>err\<close> holds the error of \<open>Do\<close> or of \<open>ReadAll\<close>; on the generic path the function's
  \<open>err\<close> stays nil.
\<close>

definition request_agrees :: "'obj request_locals \<Rightarrow> bool" where
  "request_agrees s \<longleftrightarrow>
     (if trace s = [] then resp s = None \<and> err s = None
      else (case last (trace s) of
              Recv (DoError er r) \<Rightarrow> resp s = r \<and> err s = Some (LibraryError er)
            | Recv (DoOK r) \<Rightarrow> resp s = Some r \<and> bodyContents s = fst (RespBody r)
                                \<and> err s = map_option LibraryError (snd (RespBody r))
            | _ \<Rightarrow> False))"

definition Request_agrees :: "'obj Request_locals \<Rightarrow> bool" where
  "Request_agrees s \<longleftrightarrow>
     err s = None \<and>
     (if trace s = [] then resp s = None
      else (case last (trace s) of
              Recv (DoError er r) \<Rightarrow> resp s = r
            | Recv (DoOK r) \<Rightarrow> resp s = Some r \<and> responseBytes s = fst (RespBody r)
            | _ \<Rightarrow> False))"

text \<open>The last event is not the receipt of a fully read response with a final status.\<close>

definition not_final :: "event list \<Rightarrow> bool" where
  "not_final t \<longleftrightarrow>
     (if t = [] then True
      else (case last t of
              Recv (DoOK r) \<Rightarrow> \<not> (snd (RespBody r) = None \<and> final_status (StatusCode r))
            | _ \<Rightarrow> True))"

text \<open>
  What one pass through the loop body of \<open>Request\<close> leaves behind when the request could
  be built: the function's \<open>err\<close> untouched, the delay (after the first attempt), the
  request and the answer of \<open>Do\<close> appended to the trace.
\<close>

definition Request_step_ok ::
  "Client \<Rightarrow> request \<Rightarrow> int \<Rightarrow> 'obj Request_locals \<Rightarrow> 'obj Request_locals \<Rightarrow> bool" where
  "Request_step_ok c req n s s' \<longleftrightarrow>
     err s' = err s
     \<and> trace s' = trace s @ (if n \<noteq> 0 then [Sleep 5] else [])
                     @ [Send req, Recv (snd (client c (nat n) req))]
     \<and> (err s = None \<longrightarrow> Request_agrees s')"

text \<open>The answers of \<open>Do\<close> on which the loop breaks.\<close>

definition breaks :: "do_result \<Rightarrow> bool" where
  "breaks d \<longleftrightarrow>
     (case d of
        DoOK r \<Rightarrow> snd (RespBody r) = None \<and> final_status (StatusCode r)
      | DoError er r \<Rightarrow> False)"

section \<open>Example clients, transports and codecs\<close>

definition env_quiet :: env where
  "env_quiet = \<lparr>GF_LOG = [], CanonicalMIMEHeaderKey = (\<lambda>k. k),
                 NewRequest_error = (\<lambda>m u. None), Encode = (\<lambda>q. [])\<rparr>"

definition env_logging :: env where
  "env_logging = env_quiet\<lparr>GF_LOG := ''1''\<rparr>"

definition base_url :: "string \<Rightarrow> URL" where
  "base_url p = \<lparr>Scheme = ''http'', User = None, Host = ''localhost:3000'', Path = p,
                 RawQuery = []\<rparr>"

definition cfg :: "int \<Rightarrow> Config" where
  "cfg n = \<lparr>APIKey = [], BasicAuth = None, HTTPHeaders = None, Client = None, OrgID = 0,
            NumRetries = n\<rparr>"

definition cl :: "int \<Rightarrow> http_client \<Rightarrow> Client" where
  "cl n t = \<lparr>config = cfg n, baseURL = base_url ''/api'', client = t\<rparr>"

text \<open>The error body of the examples.\<close>

definition not_found_body :: bytes where
  \<open>not_found_body = ''{"message":"not found"}''\<close>

text \<open>A transport that cannot connect: it reads nothing of the body and returns an error.\<close>

definition refuse :: http_client where
  "refuse n req = (0, DoError ''connection refused'' None)"

text \<open>A transport that reads the whole body and answers with a status and a body.\<close>

definition respond :: "int \<Rightarrow> bytes \<Rightarrow> http_client" where
  "respond code b n req =
     (case Body req of None \<Rightarrow> 0 | Some r \<Rightarrow> length (content r),
      DoOK \<lparr>StatusCode = code, RespBody = (b, None)\<rparr>)"

text \<open>A transport that cannot connect at the first attempt and answers 200 afterwards.\<close>

definition refuse_once :: http_client where
  "refuse_once n req = (if n = 0 then refuse n req else respond 200 ''{}'' n req)"

text \<open>A transport that answers 503 at the first attempt and 200 afterwards.\<close>

definition unavailable_once :: http_client where
  "unavailable_once n req =
     (if n = 0 then respond 503 not_found_body n req else respond 200 ''{}'' n req)"

text \<open>
  Codecs for the examples: the request type is a byte string sent as it is, an error body
  decodes to its \<open>message\<close>, a result is the body itself, and all reject the empty input.
\<close>

definition marshal_id :: "bytes \<Rightarrow> lib_error + bytes" where
  "marshal_id = (\<lambda>b. Inr b)"

definition unmarshal_message :: "bytes \<Rightarrow> lib_error + (string \<times> string) list" where
  "unmarshal_message b =
     (if b = not_found_body then Inr [(''message'', ''not found'')]
      else if b = [] then Inl ''unexpected end of JSON input''
      else Inl ''invalid character'')"

definition unmarshal_raw :: "bytes \<Rightarrow> lib_error + bytes" where
  "unmarshal_raw b = (if b = [] then Inl ''unexpected end of JSON input'' else Inr b)"

text \<open>
  A dashboard whose top-level \<open>folderId\<close> is 3 and whose \<open>meta.folderId\<close> is 7, and a
  decoder that reads it out of every body but the empty one and \<open>null\<close>.
\<close>

definition example_dashboard :: "unit Dashboard" where
  "example_dashboard =
     \<lparr>Meta = \<lparr>IsStarred = False, Slug = ''x'', Folder = 7, URL = ''/d/x''\<rparr>,
      Model = (), FolderID = 3, FolderUID = [], Overwrite = False, Message = []\<rparr>"

definition unmarshal_dashboard :: "bytes \<Rightarrow> lib_error + unit Dashboard option" where
  "unmarshal_dashboard b =
     (if b = [] then Inl ''unexpected end of JSON input''
      else if b = ''null'' then Inr None
      else Inr (Some example_dashboard))"

text \<open>
  A client made from the base URL string \<open>api\<close>: \<open>url.Parse\<close> gives a URL without
  scheme and host whose path is \<open>api\<close>.
\<close>

definition cl_relative :: Client where
  "cl_relative = \<lparr>config = cfg 0,
                   baseURL = \<lparr>Scheme = [], User = None, Host = [], Path = ''api'',
                              RawQuery = []\<rparr>,
                   client = refuse\<rparr>"

text \<open>The request \<open>Request\<close> builds for \<open>GET /dashboards/db/x\<close> without a body.\<close>

definition req_example :: request where
  "req_example = \<lparr>Method = ''GET'', ReqURL = base_url ''/api/dashboards/db/x'',
                   Header = [(''Content-Type'', ''application/json'')],
                   Body = Some (BytesReader [])\<rparr>"

text \<open>A configuration with a token, an organization and a custom header.\<close>

definition cfg_full :: Config where
  "cfg_full = (cfg 0)\<lparr>APIKey := ''tok'', OrgID := 5,
                        HTTPHeaders := Some [(''X-Custom'', ''1'')]\<rparr>"

text \<open>A configuration without token and organization whose custom headers name both.\<close>

definition cfg_custom :: Config where
  "cfg_custom = (cfg 0)\<lparr>HTTPHeaders := Some [(''Authorization'', ''Bearer abc''),
                                               (''X-Grafana-Org-Id'', ''5'')]\<rparr>"

section \<open>Verification\<close>

lemmas example_defs = env_quiet_def env_logging_def base_url_def cfg_def cl_def refuse_def
  respond_def refuse_once_def marshal_id_def unmarshal_message_def unmarshal_raw_def
  not_found_body_def example_dashboard_def unmarshal_dashboard_def req_example_def
  cfg_full_def cfg_custom_def cl_relative_def unavailable_once_def

lemmas exec_defs = Request_def Request_loop.simps Request_attempt_def Request_finish_def
  request_def request_loop.simps request_attempt_def request_finish_def tee_written_def
  newRequest_def log_request_def Header_Add_def Join_def Clean_def final_status_def
  Errorf_unmarshal_def Errorf_status_def FormatInt_def digits.simps
  attempts_def sent_bodies_def

subsection \<open>The request that \<open>newRequest\<close> builds\<close>

lemma fold_Header_Add:
  "fold (\<lambda>(k, v) r. r\<lparr>Header := Header r @ [(CanonicalMIMEHeaderKey e k, v)]\<rparr>) hs req
     = req\<lparr>Header := Header req @ map (\<lambda>(k, v). (CanonicalMIMEHeaderKey e k, v)) hs\<rparr>"
  by (induction hs arbitrary: req) auto

lemma newRequest_Ok:
  assumes "newRequest e c meth requestPath query b = Ok req"
  shows "req = \<lparr>Method = meth,
                ReqURL = (baseURL c)\<lparr>Path := Join (Path (baseURL c)) requestPath,
                                        RawQuery := Encode e query\<rparr>,
                Header =
                  (if APIKey (config c) \<noteq> []
                   then [(CanonicalMIMEHeaderKey e ''Authorization'',
                          ''Bearer '' @ APIKey (config c))] else [])
                  @ (if OrgID (config c) \<noteq> 0
                     then [(CanonicalMIMEHeaderKey e ''X-Grafana-Org-Id'',
                            FormatInt (sint (OrgID (config c))))] else [])
                  @ (case HTTPHeaders (config c) of None \<Rightarrow> []
                     | Some hs \<Rightarrow> map (\<lambda>(k, v). (CanonicalMIMEHeaderKey e k, v)) hs)
                  @ [(CanonicalMIMEHeaderKey e ''Content-Type'', ''application/json'')],
                Body = b\<rparr>"
  using assms
  by (auto simp: newRequest_def Let_def Header_Add_def fold_Header_Add
           split: option.splits if_splits)

lemma newRequest_Path:
  "newRequest e c meth requestPath query b = Ok req \<Longrightarrow>
     Path (ReqURL req) = Join (Path (baseURL c)) requestPath"
  by (drule newRequest_Ok) simp

subsection \<open>Counting attempts\<close>

lemma sends_append [simp]: "sends (t @ u) = sends t @ sends u"
  by (induction t rule: sends.induct) auto

lemma attempts_append [simp]: "attempts (t @ u) = attempts t + attempts u"
  by (simp add: attempts_def)

lemma attempts_simps [simp]:
  "attempts [] = 0" "attempts (Send req # t) = Suc (attempts t)"
  "attempts (Sleep k # t) = attempts t" "attempts (Recv d # t) = attempts t"
  by (simp_all add: attempts_def)

subsection \<open>The loop of \<open>Request\<close>\<close>

lemma Request_attempt_step:
  assumes "newRequest e c meth requestPath query (Some (BytesReader rb)) = Ok req"
  shows "case Request_attempt e c meth requestPath query rb n s of
           Continue s' \<Rightarrow> Request_step_ok c req n s s' \<and> \<not> breaks (snd (client c (nat n) req))
         | Break s' \<Rightarrow> Request_step_ok c req n s s' \<and> breaks (snd (client c (nat n) req))
         | _ \<Rightarrow> False"
  using assms
  by (cases "snd (client c (nat n) req)")
     (auto simp: Request_attempt_def Let_def Request_agrees_def Request_step_ok_def breaks_def
           split: option.splits)

lemma Request_loop_Ok:
  assumes "newRequest e c meth requestPath query (Some (BytesReader rb)) = Ok req"
  shows "case Request_loop e c meth requestPath query rb n s of
           Done s' \<Rightarrow> err s' = err s \<and> (err s = None \<longrightarrow> Request_agrees s \<longrightarrow> Request_agrees s')
         | _ \<Rightarrow> False"
  using assms
proof (induction e c meth requestPath query rb n s rule: Request_loop.induct)
  case (1 e c meth requestPath query rb n s)
  show ?case
  proof (cases "n \<le> NumRetries (config c)")
    case False
    then show ?thesis by (simp add: Request_loop.simps)
  next
    case True
    note a = Request_attempt_step [OF "1.prems", where n = n and s = s]
    show ?thesis
    proof (cases "Request_attempt e c meth requestPath query rb n s")
      case (Continue s1)
      with a have ok: "Request_step_ok c req n s s1" by simp
      from "1.IH" [OF True Continue "1.prems"] ok True Continue show ?thesis
        by (subst Request_loop.simps)
           (auto simp: Request_step_ok_def split: exit.splits)
    next
      case (Break s1)
      with a True show ?thesis
        by (subst Request_loop.simps) (simp add: Request_step_ok_def)
    next
      case (ReturnErr er s1)
      with a show ?thesis by simp
    next
      case (PanicStep p s1)
      with a show ?thesis by simp
    qed
  qed
qed

lemma Request_loop_not_Ok:
  assumes "\<forall>req. newRequest e c meth requestPath query (Some (BytesReader rb)) \<noteq> Ok req"
  shows "trace (case Request_loop e c meth requestPath query rb n s of
                  Done s' \<Rightarrow> s' | Returned er s' \<Rightarrow> s' | Panicked p s' \<Rightarrow> s') = trace s"
  using assms
  by (subst Request_loop.simps)
     (cases "newRequest e c meth requestPath query (Some (BytesReader rb))";
      simp add: Request_attempt_def)

text \<open>When the trace of a call ends with a response, that response decides the outcome.\<close>

lemma Request_last_response:
  assumes run: "Request e c marshal unmarshal_map unmarshal_res meth requestPath query requestBody
             = (out :: ('obj error, 'res) outcome, t)"
    and t: "t \<noteq> []" and l: "last t = Recv (DoOK r)"
  shows "out = (if StatusCode r \<ge> 400 then
                  (case unmarshal_map (fst (RespBody r)) of
                     Inl er \<Rightarrow> Failed (Errorf_unmarshal (fst (RespBody r)) (StatusCode r) er)
                   | Inr m \<Rightarrow> Failed (APIError (StatusCode r) m))
                else
                  (case unmarshal_res (fst (RespBody r)) of
                     Inl er \<Rightarrow> Failed (LibraryError er)
                   | Inr v \<Rightarrow> Ok v))"
proof (cases "case requestBody of None \<Rightarrow> Inr [] | Some b \<Rightarrow> marshal b")
  case (Inl er)
  with run t show ?thesis by (simp add: Request_def)
next
  case (Inr rb)
  let ?s0 = "\<lparr>err = None, resp = None, trace = [], responseBytes = []\<rparr> :: 'obj Request_locals"
  show ?thesis
  proof (cases "\<exists>req. newRequest e c meth requestPath query (Some (BytesReader rb)) = Ok req")
    case False
    then have "trace (case Request_loop e c meth requestPath query rb 0 ?s0 of
                  Done s' \<Rightarrow> s' | Returned er s' \<Rightarrow> s' | Panicked p s' \<Rightarrow> s') = trace ?s0"
      by (intro Request_loop_not_Ok) simp
    with run Inr t show ?thesis
      by (auto simp: Request_def split: exit.splits)
  next
    case True
    then obtain req where "newRequest e c meth requestPath query (Some (BytesReader rb)) = Ok req" ..
    from Request_loop_Ok [OF this, where n = 0 and s = ?s0]
    obtain s' where d: "Request_loop e c meth requestPath query rb 0 ?s0 = Done s'"
      and ag: "Request_agrees s'"
      by (auto simp: Request_agrees_def split: exit.splits)
    from run Inr d have o: "out = Request_finish unmarshal_map unmarshal_res s'" and tt: "t = trace s'"
      by (simp_all add: Request_def)
    from ag tt t l have "err s' = None" "resp s' = Some r" "responseBytes s' = fst (RespBody r)"
      by (simp_all add: Request_agrees_def)
    then show ?thesis unfolding o by (simp add: Request_finish_def split: sum.splits)
  qed
qed

lemma Request_loop_no_break:
  assumes b: "newRequest e c meth requestPath query (Some (BytesReader rb)) = Ok req"
    and nb: "\<forall>j. n \<le> j \<and> j \<le> NumRetries (config c) \<longrightarrow> \<not> breaks (snd (client c (nat j) req))"
    and n: "0 \<le> n" "n \<le> NumRetries (config c) + 1"
  shows "case Request_loop e c meth requestPath query rb n s of
           Done s' \<Rightarrow>
             attempts (trace s') = attempts (trace s) + nat (NumRetries (config c) + 1 - n)
             \<and> (n \<le> NumRetries (config c) \<longrightarrow>
                  trace s' \<noteq> []
                  \<and> last (trace s') = Recv (snd (client c (nat (NumRetries (config c))) req)))
         | _ \<Rightarrow> False"
  using assms
proof (induction e c meth requestPath query rb n s rule: Request_loop.induct)
  case (1 e c meth requestPath query rb n s)
  show ?case
  proof (cases "n \<le> NumRetries (config c)")
    case False
    with "1.prems" show ?thesis by (simp add: Request_loop.simps)
  next
    case True
    note a = Request_attempt_step [OF "1.prems"(1), where n = n and s = s]
    from "1.prems"(2) True have nb: "\<not> breaks (snd (client c (nat n) req))" by simp
    show ?thesis
    proof (cases "Request_attempt e c meth requestPath query rb n s")
      case (Continue s1)
      with a have ok: "Request_step_ok c req n s s1" by simp
      have nb': "\<forall>j. n + 1 \<le> j \<and> j \<le> NumRetries (config c)
                   \<longrightarrow> \<not> breaks (snd (client c (nat j) req))"
        using "1.prems"(2) by simp
      have n': "0 \<le> n + 1" "n + 1 \<le> NumRetries (config c) + 1"
        using "1.prems"(3) True by simp_all
      note ih = "1.IH" [OF True Continue "1.prems"(1) nb' n']
      have unf: "Request_loop e c meth requestPath query rb n s
                   = Request_loop e c meth requestPath query rb (n + 1) s1"
        using True Continue by (subst Request_loop.simps) simp
      show ?thesis
      proof (cases "n + 1 \<le> NumRetries (config c)")
        case True
        with ih ok "1.prems"(3) show ?thesis
          unfolding unf by (auto simp: Request_step_ok_def split: exit.splits)
      next
        case False
        then have stop: "Request_loop e c meth requestPath query rb (n + 1) s1 = Done s1"
          by (subst Request_loop.simps) simp
        from False \<open>n \<le> NumRetries (config c)\<close> have eq: "n = NumRetries (config c)" by simp
        from ok "1.prems"(3) show ?thesis
          unfolding unf stop by (simp add: Request_step_ok_def eq)
      qed
    next
      case (Break s1)
      with a nb show ?thesis by simp
    next
      case (ReturnErr er s1)
      with a show ?thesis by simp
    next
      case (PanicStep p s1)
      with a show ?thesis by simp
    qed
  qed
qed

lemma Request_loop_first_break:
  assumes b: "newRequest e c meth requestPath query (Some (BytesReader rb)) = Ok req"
    and nb: "\<forall>j. n \<le> j \<and> j < k \<longrightarrow> \<not> breaks (snd (client c (nat j) req))"
    and br: "breaks (snd (client c (nat k) req))"
    and n: "0 \<le> n" "n \<le> k" "k \<le> NumRetries (config c)"
  shows "case Request_loop e c meth requestPath query rb n s of
           Done s' \<Rightarrow>
             attempts (trace s') = attempts (trace s) + nat (k + 1 - n)
             \<and> trace s' \<noteq> []
             \<and> last (trace s') = Recv (snd (client c (nat k) req))
         | _ \<Rightarrow> False"
  using assms
proof (induction e c meth requestPath query rb n s rule: Request_loop.induct)
  case (1 e c meth requestPath query rb n s)
  from "1.prems"(5,6) have le: "n \<le> NumRetries (config c)" by simp
  note a = Request_attempt_step [OF "1.prems"(1), where n = n and s = s]
  show ?case
  proof (cases "Request_attempt e c meth requestPath query rb n s")
    case (Continue s1)
    with a have ok: "Request_step_ok c req n s s1"
      and nbn: "\<not> breaks (snd (client c (nat n) req))" by simp_all
    from nbn "1.prems"(3) have "n \<noteq> k" by auto
    with "1.prems"(5) have lt: "n + 1 \<le> k" by simp
    have nb': "\<forall>j. n + 1 \<le> j \<and> j < k \<longrightarrow> \<not> breaks (snd (client c (nat j) req))"
      using "1.prems"(2) by simp
    have n0: "0 \<le> n + 1" using "1.prems"(4) by simp
    note ih = "1.IH" [OF le Continue "1.prems"(1) nb' "1.prems"(3) n0 lt "1.prems"(6)]
    have unf: "Request_loop e c meth requestPath query rb n s
                 = Request_loop e c meth requestPath query rb (n + 1) s1"
      using le Continue by (subst Request_loop.simps) simp
    from ih ok lt "1.prems"(4) show ?thesis
      unfolding unf by (auto simp: Request_step_ok_def split: exit.splits)
  next
    case (Break s1)
    with a have ok: "Request_step_ok c req n s s1"
      and bn: "breaks (snd (client c (nat n) req))" by simp_all
    have "n = k"
    proof (rule ccontr)
      assume "n \<noteq> k"
      with "1.prems"(5) have "n \<le> n \<and> n < k" by simp
      with "1.prems"(2) bn show False by blast
    qed
    with ok le Break show ?thesis
      by (subst Request_loop.simps) (simp add: Request_step_ok_def)
  next
    case (ReturnErr er s1)
    with a show ?thesis by simp
  next
    case (PanicStep p s1)
    with a show ?thesis by simp
  qed
qed

lemma breaks_iff:
  "breaks d \<longleftrightarrow>
     (\<exists>r. d = DoOK r \<and> snd (RespBody r) = None \<and> StatusCode r < 500 \<and> StatusCode r \<noteq> 429)"
  by (cases d) (auto simp: breaks_def final_status_def)

subsection \<open>The loop of \<open>request\<close>\<close>

lemma request_attempt_inv:
  "case request_attempt e c meth requestPath query n s of
     Continue s' \<Rightarrow> request_agrees s' \<and> not_final (trace s')
   | Break s' \<Rightarrow> request_agrees s'
   | ReturnErr er s' \<Rightarrow> trace s' = trace s
   | PanicStep p s' \<Rightarrow> trace s' = trace s"
proof -
  define s1 where "s1 = (if n > 0 then s\<lparr>body := Some (BytesReader (bodyBuffer s))\<rparr> else s)"
  have t1: "trace s1 = trace s" by (simp add: s1_def)
  show ?thesis
  proof (cases "newRequest e c meth requestPath query (body s1)")
    case (Panic p)
    then show ?thesis by (simp add: request_attempt_def s1_def [symmetric] t1 Let_def)
  next
    case (Failed er)
    then show ?thesis by (simp add: request_attempt_def s1_def [symmetric] t1 Let_def)
  next
    case (Ok req)
    then show ?thesis
      by (cases "snd (client c (nat n) req)")
         (auto simp: request_attempt_def s1_def [symmetric] Let_def request_agrees_def
               not_final_def split: option.splits)
  qed
qed

lemma request_loop_inv:
  assumes "request_agrees s" and "not_final (trace s)"
  shows "case request_loop e c meth requestPath query n s of
           Done s' \<Rightarrow> request_agrees s'
         | Returned er s' \<Rightarrow> not_final (trace s')
         | Panicked p s' \<Rightarrow> not_final (trace s')"
  using assms
proof (induction e c meth requestPath query n s rule: request_loop.induct)
  case (1 e c meth requestPath query n s)
  show ?case
  proof (cases "n \<le> NumRetries (config c)")
    case False
    with "1.prems" show ?thesis by (simp add: request_loop.simps)
  next
    case True
    note a = request_attempt_inv [where e = e and c = c and meth = meth
        and requestPath = requestPath and query = query and n = n and s = s]
    show ?thesis
    proof (cases "request_attempt e c meth requestPath query n s")
      case (Continue s1)
      with a have "request_agrees s1" "not_final (trace s1)" by simp_all
      from "1.IH" [OF True Continue this] True Continue show ?thesis
        by (subst request_loop.simps) simp
    next
      case (Break s1)
      with a True show ?thesis by (subst request_loop.simps) simp
    next
      case (ReturnErr er s1)
      with a True "1.prems" show ?thesis by (subst request_loop.simps) simp
    next
      case (PanicStep p s1)
      with a True "1.prems" show ?thesis by (subst request_loop.simps) simp
    qed
  qed
qed

lemma request_run:
  assumes "request e c meth requestPath query body0 responseStruct
             = (out :: ('obj error, 'r option) outcome, t)"
  obtains (finished) s where "out = request_finish responseStruct s" "t = trace s" "request_agrees s"
    | (stopped) "not_final t" "\<forall>v. out \<noteq> Ok v"
proof -
  define s0 :: "'obj request_locals" where
    "s0 = \<lparr>err = None, resp = None, trace = [], bodyContents = [],
           body = (if NumRetries (config c) > 0 \<and> body0 \<noteq> None
                   then map_option TeeReader body0 else body0),
           bodyBuffer = []\<rparr>"
  have i: "request_agrees s0" "not_final (trace s0)"
    by (simp_all add: s0_def request_agrees_def not_final_def)
  note l = request_loop_inv [OF i, where e = e and c = c and meth = meth
        and requestPath = requestPath and query = query and n = 0]
  from assms have r: "(case request_loop e c meth requestPath query 0 s0 of
           Panicked p s \<Rightarrow> (Panic p, trace s)
         | Returned er s \<Rightarrow> (Failed er, trace s)
         | Done s \<Rightarrow> (request_finish responseStruct s, trace s)) = (out, t)"
    by (simp add: request_def Let_def s0_def)
  show thesis
  proof (cases "request_loop e c meth requestPath query 0 s0")
    case (Done s)
    with l r show ?thesis by (intro finished [of s]) auto
  next
    case (Returned er s)
    with l r show ?thesis by (intro stopped) auto
  next
    case (Panicked p s)
    with l r show ?thesis by (intro stopped) auto
  qed
qed

lemma request_last_response:
  assumes run: "request e c meth requestPath query body0 responseStruct = (out, t)"
    and t: "t \<noteq> []" and l: "last t = Recv (DoOK r)"
    and ok: "snd (RespBody r) = None" and fin: "final_status (StatusCode r)"
  shows "out = (if StatusCode r \<ge> 400 then Failed (Errorf_status (StatusCode r) (fst (RespBody r)))
                else (case responseStruct of
                        None \<Rightarrow> Ok None
                      | Some unmarshal \<Rightarrow>
                         (case unmarshal (fst (RespBody r)) of
                            Inl er \<Rightarrow> Failed (LibraryError er)
                          | Inr v \<Rightarrow> Ok (Some v))))"
  using run
proof (cases rule: request_run)
  case (finished s)
  with t l ok have "err s = None" "resp s = Some r" "bodyContents s = fst (RespBody r)"
    by (simp_all add: request_agrees_def)
  then show ?thesis unfolding finished(1)
    by (simp add: request_finish_def split: sum.splits option.splits)
next
  case stopped
  with t l ok fin show ?thesis by (simp add: not_final_def)
qed

lemma request_Ok:
  assumes run: "request e c meth requestPath query body0 responseStruct = (Ok v, t)"
  shows "\<exists>r. t \<noteq> [] \<and> last t = Recv (DoOK r) \<and> snd (RespBody r) = None \<and> StatusCode r < 400
            \<and> (case responseStruct of None \<Rightarrow> v = None
                | Some unmarshal \<Rightarrow> (\<exists>x. unmarshal (fst (RespBody r)) = Inr x \<and> v = Some x))"
  using run
proof (cases rule: request_run)
  case (finished s)
  from finished(1) obtain r where r: "err s = None" "resp s = Some r" "StatusCode r < 400"
    by (auto simp: request_finish_def split: option.splits if_splits)
  with finished(3) have "trace s \<noteq> []" by (auto simp: request_agrees_def)
  with finished(3) r obtain d where d: "last (trace s) = Recv d"
    by (auto simp: request_agrees_def split: event.splits)
  with finished(3) r \<open>trace s \<noteq> []\<close> have "d = DoOK r" "bodyContents s = fst (RespBody r)" "snd (RespBody r) = None"
    by (cases d; auto simp: request_agrees_def)+
  with finished(1,2) r d \<open>trace s \<noteq> []\<close> show ?thesis
    by (auto simp: request_finish_def split: option.splits sum.splits)
next
  case stopped
  then show ?thesis by simp
qed

lemma dashboard_Ok:
  assumes "dashboard e c unmarshal path
             = (Ok d :: ('a error, 'b Dashboard) outcome, t)"
  shows "FolderID d = Folder (Meta d)
       \<and> (\<exists>r result. t \<noteq> [] \<and> last t = Recv (DoOK r) \<and> snd (RespBody r) = None
             \<and> StatusCode r < 400
             \<and> unmarshal (fst (RespBody r)) = Inr (Some result)
             \<and> d = result\<lparr>FolderID := Folder (Meta result)\<rparr>)"
proof (cases "request e c ''GET'' path [] None (Some unmarshal)
               :: ('a error, 'b Dashboard option option) outcome \<times> event list")
  case (Pair o1 t1)
  show ?thesis
  proof (cases o1)
    case (Panic p)
    with Pair assms show ?thesis by (simp add: dashboard_def)
  next
    case (Failed er)
    with Pair assms show ?thesis by (simp add: dashboard_def)
  next
    case (Ok v)
    with Pair assms obtain result where v: "v = Some (Some result)"
      and d: "d = result\<lparr>FolderID := Folder (Meta result)\<rparr>" and t: "t1 = t"
      by (cases v; cases "the v") (auto simp: dashboard_def)
    from Pair Ok v t have
      "request e c ''GET'' path [] None (Some unmarshal)
         = (Ok (Some (Some result)) :: ('a error, 'b Dashboard option option) outcome, t)"
      by simp
    from request_Ok [OF this] d show ?thesis by auto
  qed
qed

subsection \<open>C1: all attempts fail in the transport\<close>

text \<open>
  Claim C1 fails on the generic path. With one retry configured and a transport that never
  connects, \<open>Request\<close> dereferences the nil response after the loop and panics: the error
  of \<open>Do\<close> was assigned to the \<open>err\<close> of the loop body, and the check after the loop reads
  the function's \<open>err\<close>, which is nil. The legacy \<open>request\<close> returns the transport's
  error on the same input.
\<close>

theorem Request_transport_failure_panics:
  "fst (Request env_quiet (cl 1 refuse) marshal_id unmarshal_message unmarshal_raw
          ''GET'' ''/dashboards/db/x'' [] None) = Panic NilPointerDereference
   \<and> fst (request env_quiet (cl 1 refuse) ''GET'' ''/dashboards/db/x'' [] None
            (Some unmarshal_raw))
       = (Failed (LibraryError ''connection refused'')
            :: ((string \<times> string) list error, bytes option) outcome)"
  by (simp add: exec_defs example_defs)

subsection \<open>C2: the logging switch\<close>

text \<open>
  Claim C2 fails. With \<open>GF_LOG\<close> set, \<open>newRequest\<close> asserts that the body is a
  \<open>*bytes.Buffer\<close>; \<open>Request\<close> always passes a \<open>*bytes.Reader\<close>, so the call panics
  before anything is sent, where the same call without \<open>GF_LOG\<close> returns the decoded
  body.
\<close>

theorem Request_logging_panics:
  "Request env_logging (cl 0 (respond 200 ''{}'')) marshal_id unmarshal_message unmarshal_raw
          ''GET'' ''/dashboards/db/x'' [] None = (Panic TypeAssertionFailed, [])
   \<and> fst (Request env_quiet (cl 0 (respond 200 ''{}'')) marshal_id unmarshal_message
            unmarshal_raw ''GET'' ''/dashboards/db/x'' [] None) = Ok ''{}''"
  by (simp add: exec_defs example_defs)

subsection \<open>C3: responses with a status of 400 or more\<close>

text \<open>
  Claim C3 as stated fails on the legacy path: for a 404 with a JSON body \<open>request\<close>
  returns the error built by \<open>fmt.Errorf("status: %d, body: %v", ...)\<close>, not an
  \<open>APIError\<close>; the body is never parsed there.
\<close>

theorem request_error_response_is_plain:
  "fst (request env_quiet (cl 0 (respond 404 not_found_body)) ''GET'' ''/dashboards/db/x'' []
          None (Some unmarshal_raw))
     = (Failed (StatusError (''status: 404, body: '' @ not_found_body))
          :: ((string \<times> string) list error, bytes option) outcome)"
  by (simp add: exec_defs example_defs)

text \<open>
  Claim C3, amended. Whenever a call of \<open>Request\<close> ends with a fully read response of
  status 400 or more, it returns an \<open>APIError\<close> with the status and the parsed body, or,
  when the body does not parse, the error that wraps the parse error and carries the raw
  body and the status in its message. Whenever a call of \<open>request\<close> ends with a fully read
  terminal response (status below 500, not 429) of status 400 or more, it returns the plain
  error \<open>status: <code>, body: <raw body>\<close>, whether or not the body is JSON.
\<close>

theorem error_response_outcomes:
  "(Request e c marshal unmarshal_map unmarshal_res meth requestPath query requestBody
        = (out, t)
      \<and> t \<noteq> [] \<and> last t = Recv (DoOK r) \<and> snd (RespBody r) = None \<and> StatusCode r \<ge> 400
      \<longrightarrow> out = (case unmarshal_map (fst (RespBody r)) of
                    Inr m \<Rightarrow> Failed (APIError (StatusCode r) m)
                  | Inl er \<Rightarrow> Failed (Errorf_unmarshal (fst (RespBody r)) (StatusCode r) er)))
   \<and> (request e' c' meth' requestPath' query' reqBody responseStruct = (out', t')
      \<and> t' \<noteq> [] \<and> last t' = Recv (DoOK r') \<and> snd (RespBody r') = None
      \<and> final_status (StatusCode r') \<and> StatusCode r' \<ge> 400
      \<longrightarrow> out' = Failed (Errorf_status (StatusCode r') (fst (RespBody r'))))"
proof (intro conjI impI)
  assume a: "Request e c marshal unmarshal_map unmarshal_res meth requestPath query requestBody
        = (out, t)
      \<and> t \<noteq> [] \<and> last t = Recv (DoOK r) \<and> snd (RespBody r) = None \<and> StatusCode r \<ge> 400"
  then have "Request e c marshal unmarshal_map unmarshal_res meth requestPath query requestBody
        = (out, t)" "t \<noteq> []" "last t = Recv (DoOK r)" by simp_all
  from Request_last_response [OF this] a
  show "out = (case unmarshal_map (fst (RespBody r)) of
                    Inr m \<Rightarrow> Failed (APIError (StatusCode r) m)
                  | Inl er \<Rightarrow> Failed (Errorf_unmarshal (fst (RespBody r)) (StatusCode r) er))"
    by (simp split: sum.splits)
next
  assume a: "request e' c' meth' requestPath' query' reqBody responseStruct = (out', t')
      \<and> t' \<noteq> [] \<and> last t' = Recv (DoOK r') \<and> snd (RespBody r') = None
      \<and> final_status (StatusCode r') \<and> StatusCode r' \<ge> 400"
  then have "request e' c' meth' requestPath' query' reqBody responseStruct = (out', t')"
    "t' \<noteq> []" "last t' = Recv (DoOK r')" "snd (RespBody r') = None"
    "final_status (StatusCode r')" by simp_all
  from request_last_response [OF this] a
  show "out' = Failed (Errorf_status (StatusCode r') (fst (RespBody r')))" by simp
qed

theorem error_response_outcomes_witness:
  "Request env_quiet (cl 0 (respond 404 not_found_body)) marshal_id unmarshal_message
      unmarshal_raw ''GET'' ''/dashboards/db/x'' [] None
     = (Failed (APIError 404 [(''message'', ''not found'')]),
        [Send \<lparr>Method = ''GET'', ReqURL = base_url ''/api/dashboards/db/x'',
               Header = [(''Content-Type'', ''application/json'')],
               Body = Some (BytesReader [])\<rparr>,
         Recv (DoOK \<lparr>StatusCode = 404, RespBody = (not_found_body, None)\<rparr>)])
   \<and> Request env_quiet (cl 0 (respond 400 ''oops'')) marshal_id unmarshal_message
      unmarshal_raw ''GET'' ''/dashboards/db/x'' [] None
     = (Failed (Errorf_unmarshal ''oops'' 400 ''invalid character''),
        [Send \<lparr>Method = ''GET'', ReqURL = base_url ''/api/dashboards/db/x'',
               Header = [(''Content-Type'', ''application/json'')],
               Body = Some (BytesReader [])\<rparr>,
         Recv (DoOK \<lparr>StatusCode = 400, RespBody = (''oops'', None)\<rparr>)])
   \<and> (request env_quiet (cl 0 (respond 404 not_found_body)) ''GET'' ''/dashboards/db/x'' []
          None (Some unmarshal_raw)
        :: ((string \<times> string) list error, bytes option) outcome \<times> event list)
     = (Failed (Errorf_status 404 not_found_body),
        [Send \<lparr>Method = ''GET'', ReqURL = base_url ''/api/dashboards/db/x'',
               Header = [(''Content-Type'', ''application/json'')],
               Body = None\<rparr>,
         Recv (DoOK \<lparr>StatusCode = 404, RespBody = (not_found_body, None)\<rparr>)])"
  using error_response_outcomes
    [where e = env_quiet and c = "cl 0 (respond 404 not_found_body)" and marshal = marshal_id
       and unmarshal_map = unmarshal_message and unmarshal_res = unmarshal_raw
       and meth = "''GET''" and requestPath = "''/dashboards/db/x''" and query = "[]"
       and requestBody = None
       and e' = env_quiet and c' = "cl 0 (respond 404 not_found_body)"
       and meth' = "''GET''" and requestPath' = "''/dashboards/db/x''" and query' = "[]"
       and reqBody = None and responseStruct = "Some unmarshal_raw"]
  by (simp add: exec_defs example_defs)

subsection \<open>C4: which responses end the retry loop\<close>

text \<open>
  Claim C4. A response ends the loop of \<open>Request\<close> exactly when it is fully read and its
  status is below 500 and not 429. With a request that can be built and
  \<open>NumRetries = N \<ge> 0\<close>:
  \<^item> if attempt \<open>k \<le> N\<close> is the first to get such a response, \<open>Request\<close> makes exactly
    \<open>k + 1\<close> attempts, whatever \<open>N\<close> is, and returns what that response decodes to; for
    \<open>k = 0\<close> this is the single attempt of a final status received at once;
  \<^item> if no attempt up to \<open>N\<close> gets such a response, it makes exactly \<open>N + 1\<close> attempts;
  \<^item> if every attempt gets a fully read response with a status of 500 or more or 429, it
    makes exactly \<open>N + 1\<close> attempts and returns what the last response decodes to, an
    \<open>APIError\<close> with its status (or the error for an unparsable body), not an error of
    another kind.
\<close>

theorem Request_retry_policy:
  assumes build: "newRequest e c meth requestPath query (Some (BytesReader requestBytes)) = Ok req"
    and marshal: "(case requestBody of None \<Rightarrow> Inr [] | Some b \<Rightarrow> marshal b) = Inr requestBytes"
    and N: "0 \<le> NumRetries (config c)"
    and run: "Request e c marshal unmarshal_map unmarshal_res meth requestPath query requestBody
                = (out :: ('obj error, 'res) outcome, t)"
  shows "(\<forall>k r. k \<le> nat (NumRetries (config c))
              \<and> snd (client c k req) = DoOK r \<and> snd (RespBody r) = None
              \<and> StatusCode r < 500 \<and> StatusCode r \<noteq> 429
              \<and> (\<forall>j < k. \<not> (\<exists>r'. snd (client c j req) = DoOK r' \<and> snd (RespBody r') = None
                                  \<and> StatusCode r' < 500 \<and> StatusCode r' \<noteq> 429))
            \<longrightarrow> attempts t = k + 1 \<and> last t = Recv (DoOK r)
                \<and> out = (if StatusCode r \<ge> 400 then
                            (case unmarshal_map (fst (RespBody r)) of
                               Inl er \<Rightarrow> Failed (Errorf_unmarshal (fst (RespBody r))
                                                   (StatusCode r) er)
                             | Inr m \<Rightarrow> Failed (APIError (StatusCode r) m))
                          else
                            (case unmarshal_res (fst (RespBody r)) of
                               Inl er \<Rightarrow> Failed (LibraryError er)
                             | Inr v \<Rightarrow> Ok v)))
       \<and> ((\<forall>j \<le> nat (NumRetries (config c)).
              \<not> (\<exists>r. snd (client c j req) = DoOK r \<and> snd (RespBody r) = None
                       \<and> StatusCode r < 500 \<and> StatusCode r \<noteq> 429))
            \<longrightarrow> attempts t = nat (NumRetries (config c)) + 1)
       \<and> ((\<forall>j \<le> nat (NumRetries (config c)).
              \<exists>r. snd (client c j req) = DoOK r \<and> snd (RespBody r) = None
                   \<and> (StatusCode r \<ge> 500 \<or> StatusCode r = 429))
            \<longrightarrow> attempts t = nat (NumRetries (config c)) + 1
                \<and> (\<exists>r. snd (client c (nat (NumRetries (config c))) req) = DoOK r
                         \<and> last t = Recv (DoOK r)
                         \<and> out = (case unmarshal_map (fst (RespBody r)) of
                                    Inr m \<Rightarrow> Failed (APIError (StatusCode r) m)
                                  | Inl er \<Rightarrow> Failed (Errorf_unmarshal (fst (RespBody r))
                                                        (StatusCode r) er))))"
proof -
  let ?N = "NumRetries (config c)"
  let ?s0 = "\<lparr>err = None, resp = None, trace = [], responseBytes = []\<rparr> :: 'obj Request_locals"
  let ?fin = "\<lambda>j. \<exists>r. snd (client c j req) = DoOK r \<and> snd (RespBody r) = None
                       \<and> StatusCode r < 500 \<and> StatusCode r \<noteq> 429"
  have first: "attempts t = k + 1 \<and> last t = Recv (DoOK r)
                \<and> out = (if StatusCode r \<ge> 400 then
                            (case unmarshal_map (fst (RespBody r)) of
                               Inl er \<Rightarrow> Failed (Errorf_unmarshal (fst (RespBody r))
                                                   (StatusCode r) er)
                             | Inr m \<Rightarrow> Failed (APIError (StatusCode r) m))
                          else
                            (case unmarshal_res (fst (RespBody r)) of
                               Inl er \<Rightarrow> Failed (LibraryError er)
                             | Inr v \<Rightarrow> Ok v))"
    if k: "k \<le> nat ?N" and r: "snd (client c k req) = DoOK r" "snd (RespBody r) = None"
      "StatusCode r < 500" "StatusCode r \<noteq> 429"
      and before: "\<forall>j < k. \<not> ?fin j" for k r
  proof -
    have nb: "\<forall>j. 0 \<le> j \<and> j < int k \<longrightarrow> \<not> breaks (snd (client c (nat j) req))"
    proof (intro allI impI)
      fix j :: int assume "0 \<le> j \<and> j < int k"
      then have "nat j < k" by arith
      with before have "\<not> ?fin (nat j)" by blast
      then show "\<not> breaks (snd (client c (nat j) req))" by (simp add: breaks_iff)
    qed
    have br: "breaks (snd (client c (nat (int k)) req))" using r by (simp add: breaks_iff)
    have kN: "int k \<le> ?N" using k N by arith
    from Request_loop_first_break [OF build nb br _ _ kN, where s = ?s0]
    obtain s' where "Request_loop e c meth requestPath query requestBytes 0 ?s0 = Done s'"
      and "attempts (trace s') = nat (int k + 1)" "trace s' \<noteq> []"
      "last (trace s') = Recv (snd (client c k req))"
      by (auto split: exit.splits)
    with run marshal r
    have t: "attempts t = k + 1" "t \<noteq> []" "last t = Recv (DoOK r)"
      by (auto simp: Request_def nat_add_distrib)
    from Request_last_response [OF run t(2,3)] t show ?thesis by simp
  qed
  have none: "attempts t = nat ?N + 1 \<and> t \<noteq> []
                \<and> last t = Recv (snd (client c (nat ?N) req))"
    if no: "\<forall>j \<le> nat ?N. \<not> ?fin j"
  proof -
    have nb: "\<forall>j. 0 \<le> j \<and> j \<le> ?N \<longrightarrow> \<not> breaks (snd (client c (nat j) req))"
    proof (intro allI impI)
      fix j :: int assume "0 \<le> j \<and> j \<le> ?N"
      then have "nat j \<le> nat ?N" by arith
      with no have "\<not> ?fin (nat j)" by blast
      then show "\<not> breaks (snd (client c (nat j) req))" by (simp add: breaks_iff)
    qed
    from Request_loop_no_break [OF build nb, where s = ?s0] N
    obtain s' where "Request_loop e c meth requestPath query requestBytes 0 ?s0 = Done s'"
      and "attempts (trace s') = nat (?N + 1)" "trace s' \<noteq> []"
      "last (trace s') = Recv (snd (client c (nat ?N) req))"
      by (auto split: exit.splits)
    with run marshal N show ?thesis
      by (auto simp: Request_def nat_add_distrib)
  qed
  have all: "attempts t = nat ?N + 1
                \<and> (\<exists>r. snd (client c (nat ?N) req) = DoOK r
                         \<and> last t = Recv (DoOK r)
                         \<and> out = (case unmarshal_map (fst (RespBody r)) of
                                    Inr m \<Rightarrow> Failed (APIError (StatusCode r) m)
                                  | Inl er \<Rightarrow> Failed (Errorf_unmarshal (fst (RespBody r))
                                                        (StatusCode r) er)))"
    if a: "\<forall>j \<le> nat ?N. \<exists>r. snd (client c j req) = DoOK r \<and> snd (RespBody r) = None
                   \<and> (StatusCode r \<ge> 500 \<or> StatusCode r = 429)"
  proof -
    have no: "\<forall>j \<le> nat ?N. \<not> ?fin j"
    proof (intro allI impI)
      fix j assume "j \<le> nat ?N"
      with a obtain r where "snd (client c j req) = DoOK r"
        "StatusCode r \<ge> 500 \<or> StatusCode r = 429" by blast
      then show "\<not> ?fin j" by auto
    qed
    note t = none [OF no]
    from a obtain r where r: "snd (client c (nat ?N) req) = DoOK r"
      "StatusCode r \<ge> 500 \<or> StatusCode r = 429" by blast
    from t r have l: "t \<noteq> []" "last t = Recv (DoOK r)" by simp_all
    from Request_last_response [OF run l] r(2)
    have "out = (case unmarshal_map (fst (RespBody r)) of
                   Inr m \<Rightarrow> Failed (APIError (StatusCode r) m)
                 | Inl er \<Rightarrow> Failed (Errorf_unmarshal (fst (RespBody r)) (StatusCode r) er))"
      by (auto split: sum.splits)
    with t r l show ?thesis by simp
  qed
  from first none all show ?thesis by blast
qed

theorem Request_retry_policy_witness:
  "attempts (snd (Request env_quiet (cl 2 (respond 404 not_found_body)) marshal_id
                    unmarshal_message unmarshal_raw ''GET'' ''/dashboards/db/x'' [] None)) = 1
   \<and> attempts (snd (Request env_quiet (cl 2 unavailable_once) marshal_id
                    unmarshal_message unmarshal_raw ''GET'' ''/dashboards/db/x'' [] None)) = 2
   \<and> fst (Request env_quiet (cl 2 unavailable_once) marshal_id
                    unmarshal_message unmarshal_raw ''GET'' ''/dashboards/db/x'' [] None)
       = Ok ''{}''
   \<and> attempts (snd (Request env_quiet (cl 2 (respond 503 not_found_body)) marshal_id
                    unmarshal_message unmarshal_raw ''GET'' ''/dashboards/db/x'' [] None)) = 3
   \<and> fst (Request env_quiet (cl 2 (respond 503 not_found_body)) marshal_id
                    unmarshal_message unmarshal_raw ''GET'' ''/dashboards/db/x'' [] None)
       = Failed (APIError 503 [(''message'', ''not found'')])"
proof -
  have m: "(case None of None \<Rightarrow> Inr [] | Some b \<Rightarrow> marshal_id b) = Inr []" by simp
  have b1: "newRequest env_quiet (cl 2 (respond 404 not_found_body)) ''GET'' ''/dashboards/db/x''
              [] (Some (BytesReader [])) = Ok req_example"
    and b2: "newRequest env_quiet (cl 2 unavailable_once) ''GET'' ''/dashboards/db/x''
              [] (Some (BytesReader [])) = Ok req_example"
    and b3: "newRequest env_quiet (cl 2 (respond 503 not_found_body)) ''GET'' ''/dashboards/db/x''
              [] (Some (BytesReader [])) = Ok req_example"
    by (simp_all add: exec_defs example_defs)
  have n1: "0 \<le> NumRetries (config (cl 2 (respond 404 not_found_body)))"
    and n2: "0 \<le> NumRetries (config (cl 2 unavailable_once))"
    and n3: "0 \<le> NumRetries (config (cl 2 (respond 503 not_found_body)))"
    by (simp_all add: cl_def cfg_def)
  note w1 = Request_retry_policy [OF b1 m n1 surjective_pairing,
              where unmarshal_map = unmarshal_message and unmarshal_res = unmarshal_raw,
              THEN conjunct1, rule_format,
              of 0 "\<lparr>StatusCode = 404, RespBody = (not_found_body, None)\<rparr>"]
    and w2 = Request_retry_policy [OF b2 m n2 surjective_pairing,
              where unmarshal_map = unmarshal_message and unmarshal_res = unmarshal_raw,
              THEN conjunct1, rule_format,
              of 1 "\<lparr>StatusCode = 200, RespBody = (''{}'', None)\<rparr>"]
    and w3 = Request_retry_policy [OF b3 m n3 surjective_pairing,
              where unmarshal_map = unmarshal_message and unmarshal_res = unmarshal_raw,
              THEN conjunct2, THEN conjunct2, THEN mp]
  have 1: "attempts (snd (Request env_quiet (cl 2 (respond 404 not_found_body)) marshal_id
             unmarshal_message unmarshal_raw ''GET'' ''/dashboards/db/x'' [] None)) = 1"
    using w1 by (simp add: cl_def cfg_def respond_def)
  have 2: "attempts (snd (Request env_quiet (cl 2 unavailable_once) marshal_id
             unmarshal_message unmarshal_raw ''GET'' ''/dashboards/db/x'' [] None)) = 2
         \<and> fst (Request env_quiet (cl 2 unavailable_once) marshal_id
             unmarshal_message unmarshal_raw ''GET'' ''/dashboards/db/x'' [] None) = Ok ''{}''"
    using w2
    by (simp add: cl_def cfg_def respond_def unavailable_once_def unmarshal_raw_def)
  have h3: "\<forall>j \<le> nat (NumRetries (config (cl 2 (respond 503 not_found_body)))).
              \<exists>r. snd (client (cl 2 (respond 503 not_found_body)) j req_example) = DoOK r
                   \<and> snd (RespBody r) = None \<and> (StatusCode r \<ge> 500 \<or> StatusCode r = 429)"
    by (simp add: cl_def cfg_def respond_def)
  have 3: "attempts (snd (Request env_quiet (cl 2 (respond 503 not_found_body)) marshal_id
             unmarshal_message unmarshal_raw ''GET'' ''/dashboards/db/x'' [] None)) = 3
         \<and> fst (Request env_quiet (cl 2 (respond 503 not_found_body)) marshal_id
             unmarshal_message unmarshal_raw ''GET'' ''/dashboards/db/x'' [] None)
            = Failed (APIError 503 [(''message'', ''not found'')])"
    using w3 [OF h3]
    by (auto simp: cl_def cfg_def respond_def unmarshal_message_def)
  from 1 2 3 show ?thesis by simp
qed

subsection \<open>C5: the request body on a retry\<close>

text \<open>
  Claim C5 fails on the legacy path. The stash is filled by the tee, so it holds what the
  transport read during the first attempt. When the first attempt fails before the body is
  read, the retry sends an empty body instead of the original \<open>abc\<close>.
\<close>

theorem request_retry_loses_body:
  "sent_bodies (snd (request env_quiet (cl 1 refuse_once) ''POST'' ''/dashboards/db'' []
                      (Some (BytesBuffer ''abc'')) (Some unmarshal_raw)
                     :: ((string \<times> string) list error, bytes option) outcome \<times> event list))
     = [''abc'', []]"
  by (simp add: exec_defs example_defs)

subsection \<open>C6: \<open>WithOrgID\<close> leaves the original client alone\<close>

text \<open>
  Claim C6. A call of \<open>WithOrgID\<close> through a pointer \<open>p\<close> returns a pointer \<open>q\<close> to a
  new client: \<open>q\<close> is a fresh address, every client that was in the store, the original
  at \<open>p\<close> among them, is unchanged, the new client is the original with \<open>OrgID\<close> set
  to the given id (so it has the same transport and base URL and the same other
  configuration fields), and a later write to the new client does not reach the original:
  its \<open>Config\<close> is a copy of its own.
\<close>

theorem WithOrgID_frame:
  "p < length h \<Longrightarrow>
   (case WithOrgID h (h ! p) orgID of
      (q, h') \<Rightarrow>
        q \<noteq> p \<and> q < length h' \<and> length h \<le> q
        \<and> (\<forall>r < length h. h' ! r = h ! r)
        \<and> h' ! q = (h ! p)\<lparr>config := (config (h ! p))\<lparr>OrgID := orgID\<rparr>\<rparr>
        \<and> OrgID (config (h' ! q)) = orgID
        \<and> client (h' ! q) = client (h ! p)
        \<and> baseURL (h' ! q) = baseURL (h ! p)
        \<and> (\<forall>x. (h'[q := x]) ! p = h ! p))"
  by (simp add: WithOrgID_def nth_append)

theorem WithOrgID_frame_witness:
  "(0::nat) < length [cl 0 refuse] \<and>
   (case WithOrgID [cl 0 refuse] ([cl 0 refuse] ! 0) 7 of
      (q, h') \<Rightarrow> q = 1 \<and> OrgID (config (h' ! q)) = 7 \<and> OrgID (config (h' ! 0)) = 0
                  \<and> h' ! 0 = cl 0 refuse)"
  using WithOrgID_frame [of 0 "[cl 0 refuse]" 7]
  by (simp add: WithOrgID_def cl_def cfg_def)

subsection \<open>C7: joining the base path and the call path\<close>

text \<open>
  Claim C7 as stated fails when the base path has no leading slash: \<open>path.Join\<close> keeps a
  relative path relative, so base path \<open>api\<close> gives \<open>api/dashboards/db/x\<close>.
\<close>

theorem newRequest_relative_base:
  "(case newRequest env_quiet cl_relative ''GET'' ''/dashboards/db/x'' [] None of
      Ok req \<Rightarrow> Path (ReqURL req) | _ \<Rightarrow> []) = ''api/dashboards/db/x''"
  by (simp add: exec_defs example_defs)

text \<open>
  Claim C7, amended. For the call path \<open>dashboards/db/x\<close> with or without a leading and a
  trailing slash: the base path \<open>/api\<close>, with or without a trailing slash, gives exactly
  \<open>/api/dashboards/db/x\<close>; the base path without its leading slash, \<open>api\<close> or
  \<open>api/\<close>, gives \<open>api/dashboards/db/x\<close>.
\<close>

theorem newRequest_joins_path:
  assumes "newRequest e c meth requestPath query b = Ok req"
    and "requestPath \<in> {''/dashboards/db/x'', ''dashboards/db/x'', ''/dashboards/db/x/'',
                          ''dashboards/db/x/''}"
  shows "(Path (baseURL c) \<in> {''/api'', ''/api/''} \<longrightarrow>
            Path (ReqURL req) = ''/api/dashboards/db/x'')
       \<and> (Path (baseURL c) \<in> {''api'', ''api/''} \<longrightarrow>
            Path (ReqURL req) = ''api/dashboards/db/x'')"
  using assms(2) unfolding newRequest_Path [OF assms(1)]
  by (auto simp: Join_def Clean_def)

theorem newRequest_joins_path_witness:
  "newRequest env_quiet ((cl 0 refuse)\<lparr>baseURL := base_url ''/api/''\<rparr>) ''GET''
      ''dashboards/db/x/'' [] (Some (BytesReader []))
     = Ok req_example
   \<and> Path (ReqURL req_example) = ''/api/dashboards/db/x''"
proof -
  have b: "newRequest env_quiet ((cl 0 refuse)\<lparr>baseURL := base_url ''/api/''\<rparr>) ''GET''
      ''dashboards/db/x/'' [] (Some (BytesReader [])) = Ok req_example"
    by (simp add: exec_defs example_defs)
  have m: "''dashboards/db/x/'' \<in> {''/dashboards/db/x'', ''dashboards/db/x'',
             ''/dashboards/db/x/'', ''dashboards/db/x/''}" by simp
  from newRequest_joins_path [OF b m] b show ?thesis by (simp add: example_defs)
qed

subsection \<open>C8: the headers of a built request\<close>

text \<open>
  Claim C8 as stated fails in its two "only if" halves: the custom headers are added under
  any name, so a request carries \<open>Authorization: Bearer abc\<close> and \<open>X-Grafana-Org-Id: 5\<close>
  although \<open>APIKey\<close> is empty and \<open>OrgID\<close> is zero.
\<close>

theorem newRequest_custom_Authorization:
  "(case (newRequest env_quiet
            ((cl 0 refuse)\<lparr>config := cfg_custom\<rparr>)
            ''GET'' ''/dashboards/db/x'' [] None) of
      Ok req \<Rightarrow> Header req | _ \<Rightarrow> [])
     = [(''Authorization'', ''Bearer abc''), (''X-Grafana-Org-Id'', ''5''),
        (''Content-Type'', ''application/json'')]
   \<and> APIKey cfg_custom = [] \<and> OrgID cfg_custom = 0"
  by (simp add: exec_defs example_defs)

text \<open>
  Claim C8, amended. Every request built by \<open>newRequest\<close> carries
  \<open>Content-Type: application/json\<close>; it carries \<open>Authorization: Bearer <APIKey>\<close> when
  \<open>APIKey\<close> is nonempty and \<open>X-Grafana-Org-Id\<close> with the id in base 10 when \<open>OrgID\<close>
  is nonzero; it carries every configured custom header; and it carries nothing else, so
  with an empty \<open>APIKey\<close> (a zero \<open>OrgID\<close>) such a header is there only when a custom
  header supplies it. Header names are compared in canonical form.
\<close>

theorem newRequest_headers:
  assumes "newRequest e c meth requestPath query b = Ok req"
  shows "(CanonicalMIMEHeaderKey e ''Content-Type'', ''application/json'') \<in> set (Header req)
    \<and> (APIKey (config c) \<noteq> [] \<longrightarrow>
         (CanonicalMIMEHeaderKey e ''Authorization'', ''Bearer '' @ APIKey (config c))
           \<in> set (Header req))
    \<and> (OrgID (config c) \<noteq> 0 \<longrightarrow>
         (CanonicalMIMEHeaderKey e ''X-Grafana-Org-Id'', FormatInt (sint (OrgID (config c))))
           \<in> set (Header req))
    \<and> (\<forall>hs. HTTPHeaders (config c) = Some hs \<longrightarrow>
          (\<forall>(k, v) \<in> set hs. (CanonicalMIMEHeaderKey e k, v) \<in> set (Header req)))
    \<and> (\<forall>h \<in> set (Header req).
          h = (CanonicalMIMEHeaderKey e ''Content-Type'', ''application/json'')
          \<or> (APIKey (config c) \<noteq> []
               \<and> h = (CanonicalMIMEHeaderKey e ''Authorization'', ''Bearer '' @ APIKey (config c)))
          \<or> (OrgID (config c) \<noteq> 0
               \<and> h = (CanonicalMIMEHeaderKey e ''X-Grafana-Org-Id'',
                       FormatInt (sint (OrgID (config c)))))
          \<or> (\<exists>hs k v. HTTPHeaders (config c) = Some hs \<and> (k, v) \<in> set hs
                \<and> h = (CanonicalMIMEHeaderKey e k, v)))"
proof -
  let ?ct = "(CanonicalMIMEHeaderKey e ''Content-Type'', ''application/json'')"
  let ?au = "(CanonicalMIMEHeaderKey e ''Authorization'', ''Bearer '' @ APIKey (config c))"
  let ?og = "(CanonicalMIMEHeaderKey e ''X-Grafana-Org-Id'', FormatInt (sint (OrgID (config c))))"
  define cu where "cu = (case HTTPHeaders (config c) of None \<Rightarrow> []
             | Some hs \<Rightarrow> map (\<lambda>(k, v). (CanonicalMIMEHeaderKey e k, v)) hs)"
  have H: "set (Header req)
             = (if APIKey (config c) \<noteq> [] then {?au} else {})
               \<union> (if OrgID (config c) \<noteq> 0 then {?og} else {}) \<union> set cu \<union> {?ct}"
    by (subst newRequest_Ok [OF assms]) (auto simp: cu_def)
  have 1: "?ct \<in> set (Header req)" by (simp add: H)
  have 2: "APIKey (config c) \<noteq> [] \<longrightarrow> ?au \<in> set (Header req)" by (simp add: H)
  have 3: "OrgID (config c) \<noteq> 0 \<longrightarrow> ?og \<in> set (Header req)" by (simp add: H)
  have 4: "\<forall>hs. HTTPHeaders (config c) = Some hs \<longrightarrow>
          (\<forall>(k, v) \<in> set hs. (CanonicalMIMEHeaderKey e k, v) \<in> set (Header req))"
    by (force simp: H cu_def)
  have 5: "\<forall>h \<in> set (Header req).
          h = ?ct \<or> (APIKey (config c) \<noteq> [] \<and> h = ?au) \<or> (OrgID (config c) \<noteq> 0 \<and> h = ?og)
          \<or> (\<exists>hs k v. HTTPHeaders (config c) = Some hs \<and> (k, v) \<in> set hs
                \<and> h = (CanonicalMIMEHeaderKey e k, v))"
  proof
    fix h assume "h \<in> set (Header req)"
    then consider "h = ?ct" | "APIKey (config c) \<noteq> []" "h = ?au"
      | "OrgID (config c) \<noteq> 0" "h = ?og" | "h \<in> set cu"
      unfolding H by (auto split: if_splits)
    then show "h = ?ct \<or> (APIKey (config c) \<noteq> [] \<and> h = ?au) \<or> (OrgID (config c) \<noteq> 0 \<and> h = ?og)
          \<or> (\<exists>hs k v. HTTPHeaders (config c) = Some hs \<and> (k, v) \<in> set hs
                \<and> h = (CanonicalMIMEHeaderKey e k, v))"
    proof cases
      case 4
      then obtain hs where hs: "HTTPHeaders (config c) = Some hs"
        by (cases "HTTPHeaders (config c)") (auto simp: cu_def)
      with 4 obtain k v where "(k, v) \<in> set hs" "h = (CanonicalMIMEHeaderKey e k, v)"
        by (auto simp: cu_def)
      with hs show ?thesis by blast
    qed auto
  qed
  from 1 2 3 4 5 show ?thesis by blast
qed

theorem newRequest_headers_witness:
  "newRequest env_quiet ((cl 0 refuse)\<lparr>config := cfg_full\<rparr>) ''GET'' ''/dashboards/db/x'' []
      (Some (BytesReader []))
     = Ok (req_example\<lparr>Header := [(''Authorization'', ''Bearer tok''),
                                     (''X-Grafana-Org-Id'', ''5''), (''X-Custom'', ''1''),
                                     (''Content-Type'', ''application/json'')]\<rparr>)
   \<and> (''Authorization'', ''Bearer '' @ APIKey cfg_full)
       \<in> set [(''Authorization'', ''Bearer tok''), (''X-Grafana-Org-Id'', ''5''),
               (''X-Custom'', ''1''), (''Content-Type'', ''application/json'')]"
proof -
  have b: "newRequest env_quiet ((cl 0 refuse)\<lparr>config := cfg_full\<rparr>) ''GET'' ''/dashboards/db/x'' []
      (Some (BytesReader []))
     = Ok (req_example\<lparr>Header := [(''Authorization'', ''Bearer tok''),
                                     (''X-Grafana-Org-Id'', ''5''), (''X-Custom'', ''1''),
                                     (''Content-Type'', ''application/json'')]\<rparr>)"
    by (simp add: exec_defs example_defs)
  note h = newRequest_headers [OF b, THEN conjunct2, THEN conjunct1]
  have "APIKey (config ((cl 0 refuse)\<lparr>config := cfg_full\<rparr>)) \<noteq> []"
    by (simp add: cfg_full_def cfg_def)
  with h b show ?thesis
    by (simp add: env_quiet_def cfg_full_def cfg_def)
qed

subsection \<open>C9: decoding a success response\<close>

text \<open>
  Claim C9. Whenever \<open>Request\<close> ends with a fully read response of status below 400, its
  outcome is what \<open>json.Unmarshal\<close> into the result type makes of the body, an error
  included; there is no other way out, so an empty body, which the decoder rejects, gives
  that error. The legacy \<open>request\<close> with a nil \<open>responseStruct\<close> returns nil on such a
  response whatever the body is.
\<close>

theorem success_response_decoding:
  "(Request e c marshal unmarshal_map unmarshal_res meth requestPath query requestBody
        = (out, t)
      \<and> t \<noteq> [] \<and> last t = Recv (DoOK r) \<and> snd (RespBody r) = None \<and> StatusCode r < 400
      \<longrightarrow> out = (case unmarshal_res (fst (RespBody r)) of
                    Inl er \<Rightarrow> Failed (LibraryError er)
                  | Inr v \<Rightarrow> Ok v)
          \<and> (\<forall>er. fst (RespBody r) = [] \<and> unmarshal_res [] = Inl er
                 \<longrightarrow> out = Failed (LibraryError er)))
   \<and> (request e' c' meth' requestPath' query' reqBody None = (out', t')
      \<and> t' \<noteq> [] \<and> last t' = Recv (DoOK r') \<and> snd (RespBody r') = None \<and> StatusCode r' < 400
      \<longrightarrow> out' = Ok None)"
proof (rule conjI; rule impI)
  assume a: "Request e c marshal unmarshal_map unmarshal_res meth requestPath query requestBody
        = (out, t)
      \<and> t \<noteq> [] \<and> last t = Recv (DoOK r) \<and> snd (RespBody r) = None \<and> StatusCode r < 400"
  then have "Request e c marshal unmarshal_map unmarshal_res meth requestPath query requestBody
        = (out, t)" "t \<noteq> []" "last t = Recv (DoOK r)" by simp_all
  from Request_last_response [OF this] a
  have o: "out = (case unmarshal_res (fst (RespBody r)) of
                    Inl er \<Rightarrow> Failed (LibraryError er)
                  | Inr v \<Rightarrow> Ok v)"
    by simp
  then show "out = (case unmarshal_res (fst (RespBody r)) of
                    Inl er \<Rightarrow> Failed (LibraryError er)
                  | Inr v \<Rightarrow> Ok v)
          \<and> (\<forall>er. fst (RespBody r) = [] \<and> unmarshal_res [] = Inl er
                 \<longrightarrow> out = Failed (LibraryError er))"
    by simp
next
  assume a: "request e' c' meth' requestPath' query' reqBody None = (out', t')
      \<and> t' \<noteq> [] \<and> last t' = Recv (DoOK r') \<and> snd (RespBody r') = None \<and> StatusCode r' < 400"
  then have "request e' c' meth' requestPath' query' reqBody None = (out', t')"
    "t' \<noteq> []" "last t' = Recv (DoOK r')" "snd (RespBody r') = None"
    "final_status (StatusCode r')" by (simp_all add: final_status_def)
  from request_last_response [OF this] a
  show "out' = Ok None" by simp
qed

theorem success_response_decoding_witness:
  "Request env_quiet (cl 0 (respond 200 [])) marshal_id unmarshal_message
      unmarshal_raw ''GET'' ''/dashboards/db/x'' [] None
     = (Failed (LibraryError ''unexpected end of JSON input''),
        [Send \<lparr>Method = ''GET'', ReqURL = base_url ''/api/dashboards/db/x'',
               Header = [(''Content-Type'', ''application/json'')],
               Body = Some (BytesReader [])\<rparr>,
         Recv (DoOK \<lparr>StatusCode = 200, RespBody = ([], None)\<rparr>)])
   \<and> unmarshal_raw [] = Inl ''unexpected end of JSON input''
   \<and> (request env_quiet (cl 0 (respond 200 [])) ''DELETE'' ''/dashboards/db/x'' []
          None (None :: (bytes \<Rightarrow> lib_error + bytes) option)
        :: ((string \<times> string) list error, bytes option) outcome \<times> event list)
     = (Ok None,
        [Send \<lparr>Method = ''DELETE'', ReqURL = base_url ''/api/dashboards/db/x'',
               Header = [(''Content-Type'', ''application/json'')],
               Body = None\<rparr>,
         Recv (DoOK \<lparr>StatusCode = 200, RespBody = ([], None)\<rparr>)])"
  using success_response_decoding
    [where e = env_quiet and c = "cl 0 (respond 200 [])" and marshal = marshal_id
       and unmarshal_map = unmarshal_message and unmarshal_res = unmarshal_raw
       and meth = "''GET''" and requestPath = "''/dashboards/db/x''" and query = "[]"
       and requestBody = None
       and e' = env_quiet and c' = "cl 0 (respond 200 [])"
       and meth' = "''DELETE''" and requestPath' = "''/dashboards/db/x''" and query' = "[]"
       and reqBody = None]
  by (simp add: exec_defs example_defs)

subsection \<open>C10: the folder id of a fetched dashboard\<close>

text \<open>
  Claim C10. When \<open>dashboard\<close>, \<open>Dashboard\<close> or \<open>DashboardByUID\<close> returns a dashboard,
  its \<open>FolderID\<close> equals its \<open>Meta.Folder\<close>: the result is the value decoded from the
  body of the last response with \<open>FolderID\<close> overwritten by \<open>Meta.Folder\<close>, whatever
  the top-level \<open>folderId\<close> of the body was.
\<close>

theorem dashboard_FolderID:
  "(dashboard e c unmarshal path = (Ok d, t) \<or> Dashboard e c unmarshal slug = (Ok d, t)
      \<or> DashboardByUID e c unmarshal uid = (Ok d, t))
   \<longrightarrow> FolderID d = Folder (Meta d)
       \<and> (\<exists>r result. t \<noteq> [] \<and> last t = Recv (DoOK r) \<and> snd (RespBody r) = None
             \<and> StatusCode r < 400
             \<and> unmarshal (fst (RespBody r)) = Inr (Some result)
             \<and> d = result\<lparr>FolderID := Folder (Meta result)\<rparr>)"
  unfolding Dashboard_def DashboardByUID_def
  by (intro impI; elim disjE; rule dashboard_Ok)

theorem dashboard_FolderID_witness:
  "(DashboardByUID env_quiet ((cl 0 (respond 200 ''{}''))\<lparr>baseURL := base_url []\<rparr>)
       unmarshal_dashboard ''x''
       :: (unit error, unit Dashboard) outcome \<times> event list)
     = (Ok (example_dashboard\<lparr>FolderID := 7\<rparr>),
        [Send \<lparr>Method = ''GET'', ReqURL = base_url ''/api/dashboards/uid/x'',
               Header = [(''Content-Type'', ''application/json'')],
               Body = None\<rparr>,
         Recv (DoOK \<lparr>StatusCode = 200, RespBody = (''{}'', None)\<rparr>)])
   \<and> FolderID example_dashboard = 3 \<and> Folder (Meta example_dashboard) = 7"
  using dashboard_FolderID
    [where e = env_quiet and c = "(cl 0 (respond 200 ''{}''))\<lparr>baseURL := base_url []\<rparr>"
       and unmarshal = unmarshal_dashboard
       and uid = "''x''" and d = "example_dashboard\<lparr>FolderID := 7\<rparr>"]
  by (simp add: exec_defs example_defs dashboard_def DashboardByUID_def)

end
